theory Spec2Isabelle
  imports Complex_Main
begin

section \<open>Strings, numbers and errors of the host language\<close>

text \<open>
  A JavaScript string is modelled by its UTF-8 bytes, a \<^typ>\<open>string\<close>: the store
  encodes keys as UTF-8 and compares them byte by byte, and concatenation, \<open>startsWith\<close>
  and \<open>split('/')\<close> on well-formed strings agree with the same operations on the
  bytes. A timestamp is an integer (epoch milliseconds); the decimal text the template
  literal \<open>`${timestamp}`\<close> produces is modelled for the integers that a
  JavaScript number holds exactly, of magnitude up to \<open>2^53\<close>, which are printed as
  their decimal digits.
\<close>

datatype error =
    Error (message: string)
  | TypeError (message: string)
  | SyntaxError (message: string)

datatype log_entry = Log string | LogError string

fun digits :: "nat \<Rightarrow> string" where
  "digits n =
     (if n < 10 then [''0123456789'' ! n]
      else digits (n div 10) @ [''0123456789'' ! (n mod 10)])"

declare digits.simps [simp del]

definition num_str :: "int \<Rightarrow> string" where
  "num_str t = (if t < 0 then CHR ''-'' # digits (nat (- t)) else digits (nat t))"

definition is_digit :: "char \<Rightarrow> bool" where
  "is_digit c = (48 \<le> (of_char c :: nat) \<and> (of_char c :: nat) \<le> 57)"

definition digits_val :: "string \<Rightarrow> nat" where
  "digits_val ds = foldl (\<lambda>acc c. 10 * acc + ((of_char c :: nat) - 48)) 0 ds"

text \<open>
  \<open>parseInt\<close>: an optional sign, then the longest run of decimal digits; \<open>NaN\<close>
  (here \<open>None\<close>) when there is no digit, and for \<open>undefined\<close>. Leading white space
  and the \<open>0x\<close> prefix, which \<open>parseInt\<close> also accepts, are left out: no key written
  by \<open>savePriceData\<close> for a series without a slash has them.
\<close>

definition parseInt :: "string option \<Rightarrow> int option" where
  "parseInt arg =
     (case arg of
        None \<Rightarrow> None
      | Some s \<Rightarrow>
          (let neg = (case s of c # _ \<Rightarrow> c = CHR ''-'' | [] \<Rightarrow> False);
               signed = (case s of c # _ \<Rightarrow> c = CHR ''-'' \<or> c = CHR ''+'' | [] \<Rightarrow> False);
               ds = takeWhile is_digit (if signed then tl s else s)
           in if ds = [] then None
              else Some (if neg then - int (digits_val ds) else int (digits_val ds))))"

fun split_on :: "char \<Rightarrow> string \<Rightarrow> string list" where
  "split_on c [] = [[]]"
| "split_on c (x # xs) =
     (if x = c then [] # split_on c xs
      else (case split_on c xs of
              s # ss \<Rightarrow> (x # s) # ss
            | [] \<Rightarrow> [[x]]))"

definition at_index :: "'a list \<Rightarrow> nat \<Rightarrow> 'a option" where
  "at_index xs i = (if i < length xs then Some (xs ! i) else None)"

definition startsWith :: "string \<Rightarrow> string \<Rightarrow> bool" where
  "startsWith s p = (take (length p) s = p)"

section \<open>The Hyperbee store\<close>

text \<open>
  Hyperbee is a library, not part of the repository; it is modelled from its interface as
  the code uses it: a key/value tree ordered by the bytes of the key
  (\<open>keyEncoding: 'utf-8'\<close>), \<open>put\<close> that inserts or replaces, and
  \<open>createReadStream\<close> with the options \<open>gte\<close>, \<open>lte\<close>, \<open>reverse\<close> and
  \<open>limit\<close>. The medium can fail: \<open>writable\<close> is false when a \<open>put\<close> is rejected,
  and \<open>read_fault = Some n\<close> makes a read stream raise in place of its item number
  \<open>n\<close> (counted from 0). \<open>writes\<close> counts the \<open>put\<close>s the medium has accepted.
\<close>

fun key_le :: "string \<Rightarrow> string \<Rightarrow> bool" where
  "key_le [] _ = True"
| "key_le (_ # _) [] = False"
| "key_le (a # as) (b # bs) =
     ((of_char a :: nat) < of_char b \<or> (a = b \<and> key_le as bs))"

record price_value =
  averagePrice :: real
  exchanges :: "string list"

record hyperbee =
  storage :: string
  entries :: "(string \<times> price_value) list"
  writable :: bool
  read_fault :: "nat option"
  writes :: nat

fun bee_insert ::
  "string \<Rightarrow> price_value \<Rightarrow> (string \<times> price_value) list \<Rightarrow> (string \<times> price_value) list"
where
  "bee_insert k v [] = [(k, v)]"
| "bee_insert k v ((k', v') # es) =
     (if k = k' then (k, v) # es
      else if key_le k k' then (k, v) # (k', v') # es
      else (k', v') # bee_insert k v es)"

definition bee_put :: "hyperbee \<Rightarrow> string \<Rightarrow> price_value \<Rightarrow> error + hyperbee" where
  "bee_put db k v =
     (if writable db
      then Inr (db\<lparr>entries := bee_insert k v (entries db), writes := Suc (writes db)\<rparr>)
      else Inl (Error ''storage medium cannot be written''))"

text \<open>
  The entries of a store are kept in the order of their keys, each key once. Every store
  that is opened empty and changed by \<open>put\<close> alone is so ordered.
\<close>

fun ordered :: "(string \<times> price_value) list \<Rightarrow> bool" where
  "ordered [] = True"
| "ordered [e] = True"
| "ordered (e # e' # es) =
     (key_le (fst e) (fst e') \<and> fst e \<noteq> fst e' \<and> ordered (e' # es))"

record range_opts =
  gte :: string
  lte :: string
  reverse :: bool
  limit :: "nat option"

definition createReadStream ::
  "hyperbee \<Rightarrow> range_opts \<Rightarrow> (string \<times> price_value) list \<times> bool"
where
  "createReadStream db opts =
     (let sel = filter (\<lambda>e. key_le (gte opts) (fst e) \<and> key_le (fst e) (lte opts)) (entries db);
          ord = (if reverse opts then rev sel else sel);
          lim = (case limit opts of None \<Rightarrow> ord | Some n \<Rightarrow> take n ord)
      in case read_fault db of
           None \<Rightarrow> (lim, False)
         | Some n \<Rightarrow> if n < length lim then (take n lim, True) else (lim, False))"

section \<open>The database client\<close>

record 't observation = price_value +
  pair :: string
  timestamp :: 't

record data_point = "int observation" +
  coinGeckoId :: string

type_synonym price_record = "int option observation"

text \<open>
  \<open>savePriceData\<close>: throws when it is given no store handle; otherwise writes the value
  under the key \<open>`${pair}/${timestamp}`\<close>, and an error of \<open>db.put\<close> is caught
  and printed. The result is the store after the call and what was printed.
\<close>

definition savePriceData ::
  "hyperbee option \<Rightarrow> data_point \<Rightarrow> error + (hyperbee \<times> log_entry list)"
where
  "savePriceData db dp =
     (case db of
        None \<Rightarrow> Inl (Error ''Hyperbee instance is not initialized. Call initDB first.'')
      | Some h \<Rightarrow>
          (let key = pair dp @ ''/'' @ num_str (timestamp dp);
               val = \<lparr>averagePrice = averagePrice dp, exchanges = exchanges dp\<rparr>
           in case bee_put h key val of
                Inr h' \<Rightarrow> Inr (h', [])
              | Inl e \<Rightarrow> Inr (h, [LogError (''Error saving data for '' @ key @ '':'')])))"

definition to_record :: "string \<Rightarrow> string \<times> price_value \<Rightarrow> price_record" where
  "to_record p e =
     \<lparr>averagePrice = averagePrice (snd e), exchanges = exchanges (snd e),
      pair = p, timestamp = parseInt (at_index (split_on CHR ''/'' (fst e)) 1)\<rparr>"

text \<open>
  \<open>getLatestPrice\<close>: the first entry of a reverse scan, limited to one entry, of the keys
  between \<open>pair/\<close> and \<open>pair/\<close> followed by U+00FF (the bytes C3 BF in UTF-8); an
  error of the stream is caught and gives \<open>null\<close>.
\<close>

definition getLatestPrice :: "hyperbee option \<Rightarrow> string \<Rightarrow> error + price_record option" where
  "getLatestPrice db p =
     (case db of
        None \<Rightarrow> Inl (Error ''Hyperbee instance is not initialized.'')
      | Some h \<Rightarrow>
          (let prefix = p @ ''/''
           in case fst (createReadStream h
                     \<lparr>gte = prefix, lte = prefix @ [CHR 0xC3, CHR 0xBF],
                      reverse = True, limit = Some 1\<rparr>) of
                e # _ \<Rightarrow> Inr (Some (to_record p e))
              | [] \<Rightarrow> Inr None))"

text \<open>
  The comparator of \<open>results.sort\<close> is \<open>a.timestamp - b.timestamp\<close>; the sort is
  stable, and a \<open>NaN\<close> difference counts as 0.
\<close>

definition ts_diff_neg :: "price_record \<Rightarrow> price_record \<Rightarrow> bool" where
  "ts_diff_neg a b =
     (case timestamp a of
        None \<Rightarrow> False
      | Some x \<Rightarrow> (case timestamp b of None \<Rightarrow> False | Some y \<Rightarrow> x - y < 0))"

fun sort_insert :: "price_record \<Rightarrow> price_record list \<Rightarrow> price_record list" where
  "sort_insert x [] = [x]"
| "sort_insert x (y # ys) =
     (if ts_diff_neg y x then y # sort_insert x ys else x # y # ys)"

definition sort_by_timestamp :: "price_record list \<Rightarrow> price_record list" where
  "sort_by_timestamp rs = foldr sort_insert rs []"

text \<open>
  \<open>getHistoricalPrices\<close>: a forward scan of the keys between \<open>pair/from\<close> and
  \<open>pair/to\<close>, keeping the keys that start with \<open>pair/\<close>; an error of the stream is
  caught and what was read before it is kept; the result is sorted by timestamp.
\<close>

definition getHistoricalPrices ::
  "hyperbee option \<Rightarrow> string \<Rightarrow> int \<Rightarrow> int \<Rightarrow> error + price_record list"
where
  "getHistoricalPrices db p fromTimestamp toTimestamp =
     (case db of
        None \<Rightarrow> Inl (Error ''Hyperbee instance is not initialized.'')
      | Some h \<Rightarrow>
          (let startKey = p @ ''/'' @ num_str fromTimestamp;
               endKey = p @ ''/'' @ num_str toTimestamp;
               scanned = fst (createReadStream h
                     \<lparr>gte = startKey, lte = endKey, reverse = False, limit = None\<rparr>);
               results = map (to_record p) (filter (\<lambda>e. startsWith (fst e) (p @ ''/'')) scanned)
           in Inr (sort_by_timestamp results)))"

text \<open>A run of writes, one after the other, as the ingestion loop issues them.\<close>

fun save_each ::
  "hyperbee option \<Rightarrow> data_point list \<Rightarrow> (error + unit) \<times> hyperbee option \<times> log_entry list"
where
  "save_each db [] = (Inr (), db, [])"
| "save_each db (dp # dps) =
     (case savePriceData db dp of
        Inl e \<Rightarrow> (Inl e, db, [])
      | Inr r \<Rightarrow>
          (case save_each (Some (fst r)) dps of
             (res, db', out) \<Rightarrow> (res, db', snd r @ out)))"

definition empty_store :: hyperbee where
  "empty_store =
     \<lparr>storage = ''./db/crypto-prices'', entries = [], writable = True,
      read_fault = None, writes = 0\<rparr>"

definition obs :: "string \<Rightarrow> int \<Rightarrow> real \<Rightarrow> string list \<Rightarrow> data_point" where
  "obs p t v srcs =
     \<lparr>averagePrice = v, exchanges = srcs, pair = p, timestamp = t, coinGeckoId = []\<rparr>"

definition db_after :: "data_point list \<Rightarrow> hyperbee option" where
  "db_after dps = fst (snd (save_each (Some empty_store) dps))"

section \<open>The price feed and the ingestion task\<close>

text \<open>
  The provider's HTTP interface is outside the repository. A \<open>feed\<close> holds what one
  run sees of it: \<open>markets\<close> is the answer of the markets request (the coins'
  \<open>id\<close> and \<open>symbol\<close>, or the error of the request), \<open>averages\<close> is what
  \<open>getAveragePrice(id, 'USDT', 3)\<close> gives for a coin (\<open>null\<close> is \<open>None\<close>; its
  request and its floating-point average are not modelled), and \<open>clock i\<close> is
  \<open>Date.now()\<close> in the loop's iteration \<open>i\<close>. Console output is modelled where it
  is the trace of a caught error, and for the scheduler; a message that embeds a count or
  a period is shortened to its fixed words.
\<close>

record coin =
  coin_id :: string
  symbol :: string

record feed =
  markets :: "error + coin list"
  averages :: "string \<Rightarrow> price_value option"
  clock :: "nat \<Rightarrow> int"

definition toUpperCase :: "string \<Rightarrow> string" where
  "toUpperCase s =
     map (\<lambda>c. if 97 \<le> (of_char c :: nat) \<and> (of_char c :: nat) \<le> 122
              then char_of ((of_char c :: nat) - 32) else c) s"

definition getTopCoins :: "feed \<Rightarrow> coin list" where
  "getTopCoins fd =
     (case markets fd of
        Inr coins \<Rightarrow> map (\<lambda>c. \<lparr>coin_id = coin_id c, symbol = toUpperCase (symbol c)\<rparr>) coins
      | Inl e \<Rightarrow> [])"

fun fetch_each :: "feed \<Rightarrow> nat \<Rightarrow> coin list \<Rightarrow> data_point list" where
  "fetch_each fd i [] = []"
| "fetch_each fd i (c # cs) =
     (case averages fd (coin_id c) of
        Some priceData \<Rightarrow>
          \<lparr>averagePrice = averagePrice priceData, exchanges = exchanges priceData,
           pair = symbol c @ ''-'' @ ''USDT'', timestamp = clock fd i,
           coinGeckoId = coin_id c\<rparr> # fetch_each fd (Suc i) cs
      | None \<Rightarrow> fetch_each fd (Suc i) cs)"

definition fetchTopCryptoData :: "feed \<Rightarrow> data_point list" where
  "fetchTopCryptoData fd =
     (let topCoins = getTopCoins fd
      in if length topCoins = 0 then [] else fetch_each fd 0 topCoins)"

text \<open>
  \<open>dataCollectionTask\<close>: the result is how the task's promise settles, the store
  handle after the run, and what the run printed. The whole body is inside
  \<open>try\<close>/\<open>catch\<close>.
\<close>

definition dataCollectionTask ::
  "feed \<Rightarrow> hyperbee option \<Rightarrow> (error + unit) \<times> hyperbee option \<times> log_entry list"
where
  "dataCollectionTask fd cryptoDB =
     (let cryptoData = fetchTopCryptoData fd
      in if length cryptoData > 0
         then (case save_each cryptoDB cryptoData of
                 (Inr u, db', out) \<Rightarrow>
                   (Inr (), db', Log ''Running data collection task...'' # out @
                      [Log ''Collected and saved data for crypto pairs.''])
               | (Inl e, db', out) \<Rightarrow>
                   (Inr (), db', Log ''Running data collection task...'' # out @
                      [LogError ''Error during data collection task:'']))
         else (Inr (), cryptoDB,
                 [Log ''Running data collection task...'', Log ''No new crypto data fetched.'']))"

section \<open>The scheduler\<close>

text \<open>
  The scheduler's fields are \<open>timerId\<close> and \<open>isRunning\<close>. The runtime around it is
  the \<open>world\<close>: the interval timers that are active, the number of executions of the
  task that have begun and have not settled (\<open>inFlight\<close>), and the console. The code
  runs on one thread and an execution of \<open>runTask\<close> is suspended at
  \<open>await this.task()\<close>, so an execution is two steps: it begins (the task is called),
  and later the task's promise settles. Other events run between the two.
\<close>

record scheduler =
  timerId :: "nat option"
  isRunning :: bool

record world =
  sched :: scheduler
  intervals :: "nat list"
  next_timer :: nat
  inFlight :: nat
  console :: "log_entry list"

datatype outcome = Resolved | Rejected error

definition new_world :: world where
  "new_world =
     \<lparr>sched = \<lparr>timerId = None, isRunning = False\<rparr>, intervals = [], next_timer = 1,
      inFlight = 0, console = []\<rparr>"

definition say :: "log_entry \<Rightarrow> world \<Rightarrow> world" where
  "say l w = w\<lparr>console := console w @ [l]\<rparr>"

definition runTask_begin :: "world \<Rightarrow> world" where
  "runTask_begin w =
     (say (Log ''Scheduler: Executing scheduled task...'') w)\<lparr>inFlight := Suc (inFlight w)\<rparr>"

definition runTask_settle :: "outcome \<Rightarrow> world \<Rightarrow> (error + unit) \<times> world" where
  "runTask_settle oc w =
     (case oc of
        Resolved \<Rightarrow>
          (Inr (), (say (Log ''Scheduler: Task completed successfully.'') w)
                     \<lparr>inFlight := inFlight w - 1\<rparr>)
      | Rejected e \<Rightarrow>
          (Inr (), (say (LogError ''Scheduler: Error during scheduled task execution:'') w)
                     \<lparr>inFlight := inFlight w - 1\<rparr>))"

text \<open>What a caller that awaits \<open>runTask()\<close> sees of one execution, from call to return.\<close>

definition runTask :: "outcome \<Rightarrow> world \<Rightarrow> (error + unit) \<times> world" where
  "runTask oc w = runTask_settle oc (runTask_begin w)"

definition start :: "world \<Rightarrow> world" where
  "start w =
     (if isRunning (sched w) then say (Log ''Scheduler: Already running.'') w
      else (let w1 = runTask_begin (say (Log ''Scheduler: Starting task.'') w);
                t = next_timer w1
            in w1\<lparr>intervals := intervals w1 @ [t], next_timer := Suc t,
                  sched := \<lparr>timerId = Some t, isRunning = True\<rparr>\<rparr>))"

definition stop :: "world \<Rightarrow> world" where
  "stop w =
     (if isRunning (sched w)
      then (say (Log ''Scheduler: Stopped.'') w)
             \<lparr>intervals := filter (\<lambda>t. Some t \<noteq> timerId (sched w)) (intervals w),
              sched := \<lparr>timerId = None, isRunning = False\<rparr>\<rparr>
      else say (Log ''Scheduler: Not running.'') w)"

definition runOnDemand_begin :: "world \<Rightarrow> world" where
  "runOnDemand_begin w = runTask_begin (say (Log ''Scheduler: Executing task on demand...'') w)"

definition runOnDemand :: "outcome \<Rightarrow> world \<Rightarrow> (error + unit) \<times> world" where
  "runOnDemand oc w = runTask oc (say (Log ''Scheduler: Executing task on demand...'') w)"

text \<open>
  The events of the event loop. A tick fires only while an interval timer is active, and
  a task settles only while one is in flight; \<open>None\<close> says that the event cannot happen
  in that state.
\<close>

datatype event = Start | Stop | Tick | OnDemand | Settle outcome

fun step :: "event \<Rightarrow> world \<Rightarrow> world option" where
  "step Start w = Some (start w)"
| "step Stop w = Some (stop w)"
| "step Tick w = (if intervals w = [] then None else Some (runTask_begin w))"
| "step OnDemand w = Some (runOnDemand_begin w)"
| "step (Settle oc) w = (if inFlight w = 0 then None else Some (snd (runTask_settle oc w)))"

fun run :: "event list \<Rightarrow> world \<Rightarrow> world option" where
  "run [] w = Some w"
| "run (ev # evs) w = (case step ev w of None \<Rightarrow> None | Some w' \<Rightarrow> run evs w')"

section \<open>The RPC handlers\<close>

text \<open>
  A request arrives as bytes and is decoded by \<open>JSON.parse\<close>, which is taken as a
  parameter \<open>parse\<close>: it gives the parsed value or the \<open>SyntaxError\<close> it throws.
  Numbers in requests are integers; a number with a fractional part, which \<open>typeof\<close>
  also calls a number, is outside the model. \<open>JObj\<close> lists the own properties of a
  parsed object, each name once.
\<close>

datatype json =
    JNull
  | JBool bool
  | JNum int
  | JStr string
  | JArr "json list"
  | JObj "(string \<times> json) list"







text \<open>
  The text of a value inside a template literal, \<open>`${pair}/`\<close>: a string is itself,
  an array is its elements joined by commas (\<open>null\<close> as the empty text), an object is
  \<open>[object Object]\<close>, and an object with an own property \<open>toString\<close>, which parsed
  JSON cannot make callable, cannot be converted.
\<close>

fun js_string :: "json \<Rightarrow> error + string"
  and js_join :: "json list \<Rightarrow> error + string"
where
  "js_string JNull = Inr ''null''"
| "js_string (JBool b) = Inr (if b then ''true'' else ''false'')"
| "js_string (JNum n) = Inr (num_str n)"
| "js_string (JStr s) = Inr s"
| "js_string (JArr xs) = js_join xs"
| "js_string (JObj kvs) =
     (if ''toString'' \<in> set (map fst kvs)
      then Inl (TypeError ''Cannot convert object to primitive value'')
      else Inr ''[object Object]'')"
| "js_join [] = Inr []"
| "js_join (x # xs) =
     (case (if x = JNull then Inr [] else js_string x) of
        Inl e \<Rightarrow> Inl e
      | Inr s \<Rightarrow>
          (if xs = [] then Inr s
           else (case js_join xs of Inl e \<Rightarrow> Inl e | Inr r \<Rightarrow> Inr (s @ '','' @ r))))"

datatype response =
    ErrorPayload string
  | LatestPrices "price_record option list"
  | HistoricalPrices "string \<Rightarrow> price_record list option"
  | TriggerAck bool string







text \<open>
  \<open>triggerDataCollection\<close>: awaits \<open>scheduler.runOnDemand()\<close> and then answers.
  \<open>oc\<close> is how the task's promise settles in the execution this call starts.
\<close>

definition triggerDataCollection :: "outcome \<Rightarrow> world \<Rightarrow> response \<times> world" where
  "triggerDataCollection oc w =
     (case runOnDemand oc (say (Log ''[RPC triggerDataCollection] Received request.'') w) of
        (Inr u, w') \<Rightarrow> (TriggerAck True ''Data collection task triggered successfully.'', w')
      | (Inl e, w') \<Rightarrow>
          (TriggerAck False
             (if message e = [] then ''Failed to trigger data collection.'' else message e),
           say (LogError ''[RPC triggerDataCollection] Error:'') w'))"











section \<open>Opening the store\<close>

text \<open>
  The module keeps the store instance in the variable \<open>hbee\<close>. Instances are objects:
  the \<open>objects\<close> of a process are its Hyperbee instances and a reference is an index
  into them. \<open>path.resolve\<close> is the parameter \<open>resolve\<close>. Opening can fail in the
  constructor of the core, before \<open>hbee\<close> is assigned, or in \<open>ready()\<close>, after it.
\<close>

record process =
  hbee :: "nat option"
  objects :: "hyperbee list"

datatype open_result = Opens | CoreThrows error | ReadyThrows error

definition new_hyperbee :: "string \<Rightarrow> hyperbee" where
  "new_hyperbee dir =
     \<lparr>storage = dir, entries = [], writable = True, read_fault = None, writes = 0\<rparr>"

definition initDB ::
  "(string \<Rightarrow> string) \<Rightarrow> open_result \<Rightarrow> string option \<Rightarrow> process \<Rightarrow> (error + nat) \<times> process"
where
  "initDB resolve op arg ps =
     (case hbee ps of
        Some r \<Rightarrow> (Inr r, ps)
      | None \<Rightarrow>
          (let storagePath = (case arg of None \<Rightarrow> ''./db/hyperdata'' | Some a \<Rightarrow> a)
           in case op of
                CoreThrows e \<Rightarrow> (Inl e, ps)
              | ReadyThrows e \<Rightarrow>
                  (Inl e, ps\<lparr>hbee := Some (length (objects ps)),
                             objects := objects ps @ [new_hyperbee (resolve storagePath)]\<rparr>)
              | Opens \<Rightarrow>
                  (Inr (length (objects ps)),
                   ps\<lparr>hbee := Some (length (objects ps)),
                      objects := objects ps @ [new_hyperbee (resolve storagePath)]\<rparr>)))"

definition getDB :: "process \<Rightarrow> nat option" where
  "getDB ps = hbee ps"

section \<open>Properties of the store\<close>

lemmas store_eval =
  db_after_def savePriceData_def bee_put_def empty_store_def obs_def num_str_def digits.simps
  createReadStream_def to_record_def parseInt_def at_index_def is_digit_def digits_val_def
  startsWith_def sort_by_timestamp_def ts_diff_neg_def Let_def

subsection \<open>The order of the keys\<close>

lemma key_le_refl: "key_le k k"
  by (induction k) simp_all

lemma key_le_Nil: "key_le k [] = (k = [])"
  by (cases k) simp_all

lemma key_le_antisym: "key_le a b \<Longrightarrow> key_le b a \<Longrightarrow> a = b"
  by (induction a b rule: key_le.induct) (auto simp add: key_le_Nil)

lemma key_le_trans: "key_le a b \<Longrightarrow> key_le b c \<Longrightarrow> key_le a c"
proof (induction a b arbitrary: c rule: key_le.induct)
  case (1 uu)
  then show ?case by simp
next
  case (2 uv uw)
  then show ?case by simp
next
  case (3 a as b bs)
  then show ?case by (cases c) auto
qed

lemma key_le_total: "key_le a b \<or> key_le b a"
  by (induction a b rule: key_le.induct) auto

lemma ordered_tail: "ordered (e # es) \<Longrightarrow> ordered es"
  by (cases es) simp_all

lemma ordered_above:
  "ordered (e # es) \<Longrightarrow> x \<in> set es \<Longrightarrow> key_le (fst e) (fst x) \<and> fst e \<noteq> fst x"
proof (induction es arbitrary: e)
  case Nil
  then show ?case by simp
next
  case (Cons e' es)
  show ?case
  proof (cases "x = e'")
    case True
    with Cons.prems show ?thesis by simp
  next
    case False
    with Cons.prems have "x \<in> set es" by simp
    moreover from Cons.prems have "ordered (e' # es)" by simp
    ultimately have up: "key_le (fst e') (fst x) \<and> fst e' \<noteq> fst x"
      using Cons.IH by blast
    from Cons.prems have low: "key_le (fst e) (fst e') \<and> fst e \<noteq> fst e'" by simp
    from low up have "key_le (fst e) (fst x)" using key_le_trans by blast
    moreover have "fst e \<noteq> fst x"
    proof
      assume "fst e = fst x"
      with low up have "fst e = fst e'" using key_le_antisym by metis
      with low show False by simp
    qed
    ultimately show ?thesis by simp
  qed
qed

lemma ordered_bee_insert: "ordered es \<Longrightarrow> ordered (bee_insert k v es)"
proof (induction es rule: ordered.induct)
  case 1
  then show ?case by simp
next
  case (2 e)
  then show ?case
    using key_le_total [of k "fst e"] by (cases e) auto
next
  case (3 e e' es)
  then show ?case
    using key_le_total [of k "fst e"] key_le_total [of k "fst e'"]
    by (cases e; cases e') auto
qed

lemma ordered_savePriceData:
  "ordered (entries h) \<Longrightarrow> savePriceData (Some h) dp = Inr (h', out) \<Longrightarrow> ordered (entries h')"
  by (auto simp add: savePriceData_def bee_put_def Let_def ordered_bee_insert
      split: if_splits)

subsection \<open>Reading one key back\<close>

lemma filter_key_absent:
  "\<forall>x \<in> set es. fst x \<noteq> k \<Longrightarrow> filter (\<lambda>e. key_le k (fst e) \<and> key_le (fst e) k) es = []"
  by (induction es) (auto dest: key_le_antisym)

lemma exact_scan_after_insert:
  "ordered es \<Longrightarrow>
   filter (\<lambda>e. key_le k (fst e) \<and> key_le (fst e) k) (bee_insert k v es) = [(k, v)]"
proof (induction es)
  case Nil
  then show ?case by (simp add: key_le_refl)
next
  case (Cons e es)
  obtain k' v' where e: "e = (k', v')" by (cases e)
  show ?case
  proof (cases "k = k'")
    case True
    have "\<forall>x \<in> set es. fst x \<noteq> k"
      using ordered_above [OF Cons.prems] e True by auto
    then show ?thesis
      using e True by (simp add: key_le_refl filter_key_absent)
  next
    case False
    show ?thesis
    proof (cases "key_le k k'")
      case True
      have "\<forall>x \<in> set es. fst x \<noteq> k"
      proof
        fix x assume "x \<in> set es"
        then have "key_le k' (fst x) \<and> k' \<noteq> fst x"
          using ordered_above [OF Cons.prems] e by auto
        with True \<open>k \<noteq> k'\<close> show "fst x \<noteq> k"
          using key_le_antisym by blast
      qed
      moreover have "\<not> key_le k' k"
        using True \<open>k \<noteq> k'\<close> key_le_antisym by blast
      ultimately show ?thesis
        using e True \<open>k \<noteq> k'\<close> by (simp add: key_le_refl filter_key_absent)
    next
      case nle: False
      from Cons.prems have "ordered es" by (rule ordered_tail)
      then have "filter (\<lambda>e. key_le k (fst e) \<and> key_le (fst e) k) (bee_insert k v es) = [(k, v)]"
        by (rule Cons.IH)
      then show ?thesis
        using e \<open>k \<noteq> k'\<close> nle by simp
    qed
  qed
qed

lemma startsWith_append: "startsWith (p @ s) p"
  by (simp add: startsWith_def)

text \<open>
  On a store that accepts the write and whose reads do not fail, the record just written
  is what \<open>getHistoricalPrices\<close> returns for the range from its timestamp to its
  timestamp: one record, with the value and the sources written.
\<close>

lemma roundtrip_getHistoricalPrices:
  assumes "writable h" and "read_fault h = None" and "ordered (entries h)"
  shows "\<exists>h' ts. savePriceData (Some h) dp = Inr (h', []) \<and> ordered (entries h') \<and>
           getHistoricalPrices (Some h') (pair dp) (timestamp dp) (timestamp dp)
           = Inr [\<lparr>averagePrice = averagePrice dp, exchanges = exchanges dp,
                  pair = pair dp, timestamp = ts\<rparr>]"
  using assms startsWith_append [of "pair dp @ ''/''" "num_str (timestamp dp)"]
  by (simp add: savePriceData_def bee_put_def getHistoricalPrices_def createReadStream_def
      exact_scan_after_insert ordered_bee_insert to_record_def sort_by_timestamp_def Let_def)

subsection \<open>Reading in the order of the timestamps\<close>

text \<open>
  C1. \<open>getLatest(s)\<close> is to return the record with the greatest timestamp among the
  writes to \<open>s\<close>. The keys hold the timestamp as decimal text and the store orders
  them as text, so the reverse scan finds the greatest text: after the writes
  \<open>(S, 999999999)\<close> and then \<open>(S, 1000000000)\<close>, \<open>getLatestPrice\<close> returns
  the record stored at 999999999, not the one at 1000000000.
\<close>

theorem getLatestPrice_digit_boundary:
  "getLatestPrice
     (db_after [obs ''S'' 999999999 1 [''A''], obs ''S'' 1000000000 2 [''B'']]) ''S''
   = Inr (Some \<lparr>averagePrice = 1, exchanges = [''A''], pair = ''S'',
                timestamp = Some 999999999\<rparr>)"
  by (simp add: getLatestPrice_def store_eval)

text \<open>
  C2. \<open>getRange(s, from, to)\<close> is to return exactly the records of \<open>s\<close> with
  \<open>from \<le> timestamp \<le> to\<close>. The scan is bounded by the texts of \<open>from\<close> and
  \<open>to\<close>: with records at 1000 and 2000, the range 500 to 1500 is empty as text and
  \<open>getHistoricalPrices\<close> returns nothing, missing the record at 1000; with records at
  5 and 10, the range 1 to 9 returns the record at 10 as well, which is outside it; and
  with a record at 1700000000000, a range that starts at the twelve-digit 999999999999
  and ends at 1800000000000 returns nothing.
\<close>

theorem getHistoricalPrices_text_order:
  "getHistoricalPrices
     (db_after [obs ''BTC-USDT'' 1000 50000 [''A'', ''B''], obs ''BTC-USDT'' 2000 51000 [''C'']])
     ''BTC-USDT'' 500 1500 = Inr []
   \<and> getHistoricalPrices (db_after [obs ''S'' 5 1 [''A''], obs ''S'' 10 2 [''B'']]) ''S'' 1 9
     = Inr [\<lparr>averagePrice = 1, exchanges = [''A''], pair = ''S'', timestamp = Some 5\<rparr>,
            \<lparr>averagePrice = 2, exchanges = [''B''], pair = ''S'', timestamp = Some 10\<rparr>]
   \<and> getHistoricalPrices (db_after [obs ''BTC-USDT'' 1700000000000 50000 [''A'']])
       ''BTC-USDT'' 999999999999 1800000000000 = Inr []"
  by (simp add: getHistoricalPrices_def store_eval)

text \<open>
  C6. A record that was just written is to be read back with the same value and sources.
  With a record of the series at 9 in the store, the record written at 10 is read back by
  \<open>getHistoricalPrices\<close> over the range 10 to 10, but \<open>getLatestPrice\<close> returns the
  value and sources of the older record at 9.
\<close>

theorem roundtrip_getLatestPrice_stale:
  "getLatestPrice (db_after [obs ''ETH-USDT'' 9 3000 [''A''], obs ''ETH-USDT'' 10 3100 [''B'']])
     ''ETH-USDT''
   = Inr (Some \<lparr>averagePrice = 3000, exchanges = [''A''], pair = ''ETH-USDT'',
                timestamp = Some 9\<rparr>)
   \<and> getHistoricalPrices
       (db_after [obs ''ETH-USDT'' 9 3000 [''A''], obs ''ETH-USDT'' 10 3100 [''B'']])
       ''ETH-USDT'' 10 10
     = Inr [\<lparr>averagePrice = 3100, exchanges = [''B''], pair = ''ETH-USDT'',
             timestamp = Some 10\<rparr>]"
  by (simp add: getLatestPrice_def getHistoricalPrices_def store_eval)

text \<open>
  C5, as the code has it. On an opened store \<open>savePriceData\<close> always returns normally.
  When the medium accepts the write, the entry is in the store and nothing is printed;
  when it does not, the error of \<open>db.put\<close> is caught and printed, the store is as it
  was, and the caller is given no error. It throws only when it is given no store handle.
\<close>

theorem savePriceData_returns_normally:
  "\<exists>h' out. savePriceData (Some h) dp = Inr (h', out) \<and>
     (if writable h
      then out = [] \<and> writes h' = Suc (writes h) \<and>
           entries h' = bee_insert (pair dp @ ''/'' @ num_str (timestamp dp))
               \<lparr>averagePrice = averagePrice dp, exchanges = exchanges dp\<rparr> (entries h)
      else h' = h \<and> (\<exists>txt. out = [LogError txt]))"
  by (simp add: savePriceData_def bee_put_def Let_def)

theorem savePriceData_returns_normally_witness:
  "\<exists>h' out. savePriceData (Some (empty_store\<lparr>writable := False\<rparr>))
       (obs ''BTC-USDT'' 1000 50000 [''A'']) = Inr (h', out) \<and>
     h' = empty_store\<lparr>writable := False\<rparr> \<and> (\<exists>txt. out = [LogError txt])"
  using savePriceData_returns_normally
    [of "empty_store\<lparr>writable := False\<rparr>" "obs ''BTC-USDT'' 1000 50000 [''A'']"]
  by (simp add: empty_store_def)

text \<open>
  C5 as stated fails: a write to a medium that cannot be written returns normally, with
  the store unchanged and one line printed.
\<close>

theorem savePriceData_swallows_put_error:
  "savePriceData (Some (empty_store\<lparr>writable := False\<rparr>)) (obs ''BTC-USDT'' 1000 50000 [''A''])
   = Inr (empty_store\<lparr>writable := False\<rparr>, [LogError ''Error saving data for BTC-USDT/1000:''])"
  by (simp add: store_eval)

section \<open>Properties of the scheduler\<close>

lemmas sched_eval =
  new_world_def say_def runTask_begin_def runTask_settle_def runTask_def start_def stop_def
  runOnDemand_begin_def runOnDemand_def Let_def

lemma run_append:
  "run (evs @ evs') w = (case run evs w of None \<Rightarrow> None | Some w' \<Rightarrow> run evs' w')"
  by (induction evs arbitrary: w) (auto split: option.splits)

text \<open>Any number of executions can be in flight: each on-demand call adds one.\<close>

lemma inFlight_unbounded:
  "\<exists>w'. run (replicate n OnDemand) w = Some w' \<and> inFlight w' = inFlight w + n"
proof (induction n arbitrary: w)
  case 0
  show ?case by simp
next
  case (Suc n)
  obtain w' where "run (replicate n OnDemand) (runOnDemand_begin w) = Some w'"
    and "inFlight w' = inFlight (runOnDemand_begin w) + n"
    using Suc.IH by blast
  then show ?case
    by (simp add: runOnDemand_begin_def runTask_begin_def say_def)
qed

text \<open>
  C3, as the code has it. The scheduler has no single-flight guard. In every state an
  on-demand call starts an execution of the task, and so does a tick of an active timer:
  the number of executions in flight goes up by one whatever it was, so a trigger that
  arrives while an execution is in flight starts a second one beside it. Only
  \<open>start\<close> is guarded: while the scheduler is running it starts no execution and arms
  no timer.
\<close>

theorem every_trigger_starts_an_execution:
  "(\<exists>w'. step OnDemand w = Some w' \<and> inFlight w' = Suc (inFlight w) \<and> sched w' = sched w) \<and>
   (intervals w \<noteq> [] \<longrightarrow>
      (\<exists>w'. step Tick w = Some w' \<and> inFlight w' = Suc (inFlight w) \<and> sched w' = sched w)) \<and>
   (isRunning (sched w) \<longrightarrow>
      (\<exists>w'. step Start w = Some w' \<and> inFlight w' = inFlight w \<and> intervals w' = intervals w))"
  by (simp add: sched_eval)

theorem every_trigger_starts_an_execution_witness:
  "run [Start] new_world = Some (start new_world) \<and>
   inFlight (start new_world) = 1 \<and> intervals (start new_world) \<noteq> [] \<and>
   isRunning (sched (start new_world)) \<and>
   (\<exists>w'. step OnDemand (start new_world) = Some w' \<and> inFlight w' = 2) \<and>
   (\<exists>w'. step Tick (start new_world) = Some w' \<and> inFlight w' = 2) \<and>
   (\<exists>w'. step Start (start new_world) = Some w' \<and> inFlight w' = 1)"
  using every_trigger_starts_an_execution [of "start new_world"]
  by (simp add: sched_eval)

text \<open>
  C3 as stated fails: after \<open>start\<close>, whose first execution is in flight, an on-demand
  call brings the number of executions in flight to two.
\<close>

theorem two_executions_in_flight:
  "map_option inFlight (run [Start, OnDemand] new_world) = Some 2"
  by (simp add: sched_eval)

text \<open>
  C7. The task's promise is rejected while an execution is in flight and a timer is
  active. The rejection is caught in \<open>runTask\<close>, whose own promise is fulfilled; the
  failure is printed; the scheduler's fields and the active timers are as before; and
  the next tick fires and starts an execution.
\<close>

theorem task_error_is_caught:
  assumes "0 < inFlight w" and "intervals w \<noteq> []"
  shows "\<exists>w'. step (Settle (Rejected e)) w = Some w' \<and>
           fst (runTask_settle (Rejected e) w) = Inr () \<and>
           fst (runTask (Rejected e) w) = Inr () \<and>
           sched w' = sched w \<and> intervals w' = intervals w \<and>
           console w' = console w @ [LogError ''Scheduler: Error during scheduled task execution:''] \<and>
           (\<exists>w''. step Tick w' = Some w'' \<and> inFlight w'' = inFlight w)"
  using assms by (simp add: sched_eval)

theorem task_error_is_caught_witness:
  "0 < inFlight (start new_world) \<and> intervals (start new_world) = [1] \<and>
   (\<exists>w'. run [Start, Settle (Rejected (Error ''feed unreachable''))] new_world = Some w' \<and>
          sched w' = \<lparr>timerId = Some 1, isRunning = True\<rparr> \<and> intervals w' = [1] \<and>
          last (console w') = LogError ''Scheduler: Error during scheduled task execution:'' \<and>
          (\<exists>w''. step Tick w' = Some w'' \<and> inFlight w'' = 1))"
  using task_error_is_caught [of "start new_world" "Error ''feed unreachable''"]
  by (auto simp add: sched_eval)

section \<open>Properties of the ingestion task\<close>

text \<open>
  C8. When the feed answers the markets request with an empty list, nothing is fetched;
  and when nothing is fetched, the task settles normally with the store handle, and so
  the store and its count of writes, as it was.
\<close>

theorem empty_feed_is_noop:
  "(markets fd = Inr [] \<longrightarrow> fetchTopCryptoData fd = []) \<and>
   (fetchTopCryptoData fd = [] \<longrightarrow>
      dataCollectionTask fd db =
        (Inr (), db,
         [Log ''Running data collection task...'', Log ''No new crypto data fetched.'']))"
  by (simp add: dataCollectionTask_def fetchTopCryptoData_def getTopCoins_def)

theorem empty_feed_is_noop_witness:
  "markets \<lparr>markets = Inr [], averages = (\<lambda>c. None), clock = (\<lambda>i. 1700000000000)\<rparr> = Inr [] \<and>
   fetchTopCryptoData \<lparr>markets = Inr [], averages = (\<lambda>c. None), clock = (\<lambda>i. 1700000000000)\<rparr>
     = [] \<and>
   dataCollectionTask \<lparr>markets = Inr [], averages = (\<lambda>c. None), clock = (\<lambda>i. 1700000000000)\<rparr>
       (db_after [obs ''BTC-USDT'' 1000 50000 [''A'']])
   = (Inr (), db_after [obs ''BTC-USDT'' 1000 50000 [''A'']],
      [Log ''Running data collection task...'', Log ''No new crypto data fetched.''])"
  using empty_feed_is_noop
    [of "\<lparr>markets = Inr [], averages = (\<lambda>c. None), clock = (\<lambda>i. 1700000000000)\<rparr>"
        "db_after [obs ''BTC-USDT'' 1000 50000 [''A'']]"]
  by simp

section \<open>Properties of the RPC handlers\<close>

text \<open>
  C4, as the code has it. Whatever the outcome of the task, \<open>triggerDataCollection\<close>
  answers after the execution it started has settled (the line that \<open>runTask\<close> prints
  at the end of the execution is on the console, and the execution is no longer in
  flight), and the answer is always the acknowledgement with \<open>success: true\<close>: the
  error of a failed run is caught in \<open>runTask\<close> and does not reach the handler.
\<close>

theorem triggerDataCollection_acks_success:
  "\<exists>w'. triggerDataCollection oc w =
          (TriggerAck True ''Data collection task triggered successfully.'', w') \<and>
        inFlight w' = inFlight w \<and> sched w' = sched w \<and>
        console w' = console w @
          [Log ''[RPC triggerDataCollection] Received request.'',
           Log ''Scheduler: Executing task on demand...'',
           Log ''Scheduler: Executing scheduled task...'',
           (case oc of
              Resolved \<Rightarrow> Log ''Scheduler: Task completed successfully.''
            | Rejected e \<Rightarrow> LogError ''Scheduler: Error during scheduled task execution:'')]"
  by (cases oc) (simp_all add: triggerDataCollection_def sched_eval)

theorem triggerDataCollection_acks_success_witness:
  "\<exists>w'. triggerDataCollection (Rejected (Error ''feed unreachable'')) new_world =
          (TriggerAck True ''Data collection task triggered successfully.'', w') \<and>
        inFlight w' = 0 \<and>
        last (console w') = LogError ''Scheduler: Error during scheduled task execution:''"
  using triggerDataCollection_acks_success [of "Rejected (Error ''feed unreachable'')" new_world]
  by (auto simp add: new_world_def)

text \<open>
  C4 as stated fails: a run whose task fails is acknowledged with \<open>success: true\<close>.
\<close>

theorem failed_run_acked_as_success:
  "fst (triggerDataCollection (Rejected (Error ''feed unreachable'')) new_world)
   = TriggerAck True ''Data collection task triggered successfully.''"
  by (simp add: triggerDataCollection_def sched_eval)












section \<open>Properties of opening the store\<close>

text \<open>
  C10. Once a call of \<open>initDB\<close> has returned an instance, every later call returns the
  same instance, whatever path it is given and whatever opening a store would do then;
  the process, and so the instance and the directory it was opened on, is unchanged.
\<close>

theorem initDB_singleton:
  assumes "initDB resolve op arg ps = (Inr r, ps')"
  shows "initDB resolve' op' arg' ps' = (Inr r, ps') \<and> getDB ps' = Some r"
  using assms
  by (auto simp add: initDB_def getDB_def Let_def split: option.splits open_result.splits)

theorem initDB_singleton_witness:
  "initDB (\<lambda>p. p) Opens (Some ''./db/crypto-prices'') \<lparr>hbee = None, objects = []\<rparr>
     = (Inr 0, \<lparr>hbee = Some 0, objects = [new_hyperbee ''./db/crypto-prices'']\<rparr>) \<and>
   initDB (\<lambda>p. p) Opens (Some ''./db/elsewhere'')
       \<lparr>hbee = Some 0, objects = [new_hyperbee ''./db/crypto-prices'']\<rparr>
     = (Inr 0, \<lparr>hbee = Some 0, objects = [new_hyperbee ''./db/crypto-prices'']\<rparr>)"
  using initDB_singleton
    [of "\<lambda>p. p" Opens "Some ''./db/crypto-prices''" "\<lparr>hbee = None, objects = []\<rparr>" 0
        "\<lparr>hbee = Some 0, objects = [new_hyperbee ''./db/crypto-prices'']\<rparr>"
        "\<lambda>p. p" Opens "Some ''./db/elsewhere''"]
  by (simp add: initDB_def)

end
